theory Spec2Isabelle
  imports Complex_Main "HOL-Library.Word"
begin

section \<open>Images\<close>

text \<open>
  \<^verbatim>\<open>brighten_icon.py\<close> works on Pillow images with 8-bit channels. An image is its
  size and its pixel grid; a pixel of an RGBA image is four bytes, of an RGB image three,
  of a single band (mode L) one.
\<close>

type_synonym byte = "8 word"
type_synonym rgb = "byte \<times> byte \<times> byte"
type_synonym rgba = "byte \<times> byte \<times> byte \<times> byte"

record 'a image =
  width :: nat
  height :: nat
  px :: "nat \<Rightarrow> nat \<Rightarrow> 'a"

type_synonym band = "byte image"

definition size_of :: "'a image \<Rightarrow> nat \<times> nat" where
  "size_of im = (width im, height im)"

fun red :: "rgba \<Rightarrow> byte" where "red (r, g, b, a) = r"
fun green :: "rgba \<Rightarrow> byte" where "green (r, g, b, a) = g"
fun blue :: "rgba \<Rightarrow> byte" where "blue (r, g, b, a) = b"
fun alpha :: "rgba \<Rightarrow> byte" where "alpha (r, g, b, a) = a"

text \<open>The exceptions the script can meet, each with the text \<^verbatim>\<open>str(e)\<close> gives.\<close>

datatype error =
    FileNotFoundError string
  | UnidentifiedImageError string
  | ValueError string
  | PermissionError string

fun str_of :: "error \<Rightarrow> string" where
  "str_of (FileNotFoundError m) = m"
| "str_of (UnidentifiedImageError m) = m"
| "str_of (ValueError m) = m"
| "str_of (PermissionError m) = m"

subsection \<open>Splitting and merging bands\<close>

text \<open>\<^verbatim>\<open>img.split()\<close> on an RGBA image: four bands of the image's size.\<close>

definition getband :: "('a \<Rightarrow> byte) \<Rightarrow> 'a image \<Rightarrow> band" where
  "getband sel im = \<lparr>width = width im, height = height im, px = (\<lambda>x y. sel (px im x y))\<rparr>"

definition split_RGBA :: "rgba image \<Rightarrow> band \<times> band \<times> band \<times> band" where
  "split_RGBA im = (getband red im, getband green im, getband blue im, getband alpha im)"

definition split_RGB :: "rgb image \<Rightarrow> band \<times> band \<times> band" where
  "split_RGB im = (getband fst im, getband (fst \<circ> snd) im, getband (snd \<circ> snd) im)"

text \<open>
  \<^verbatim>\<open>Image.merge(mode, bands)\<close> raises \<^verbatim>\<open>ValueError\<close> when a band's size differs
  from the first band's; otherwise the result has the first band's size.
\<close>

definition merge_RGB :: "band \<Rightarrow> band \<Rightarrow> band \<Rightarrow> error + rgb image" where
  "merge_RGB r g b =
     (if size_of g \<noteq> size_of r \<or> size_of b \<noteq> size_of r then Inl (ValueError ''size mismatch'')
      else Inr \<lparr>width = width r, height = height r,
                px = (\<lambda>x y. (px r x y, px g x y, px b x y))\<rparr>)"

definition merge_RGBA :: "band \<Rightarrow> band \<Rightarrow> band \<Rightarrow> band \<Rightarrow> error + rgba image" where
  "merge_RGBA r g b a =
     (if size_of g \<noteq> size_of r \<or> size_of b \<noteq> size_of r \<or> size_of a \<noteq> size_of r
      then Inl (ValueError ''size mismatch'')
      else Inr \<lparr>width = width r, height = height r,
                px = (\<lambda>x y. (px r x y, px g x y, px b x y, px a x y))\<rparr>)"

section \<open>The imaging library\<close>

text \<open>
  The numeric primitives the script calls are Pillow's, not this repository's:
  \<^verbatim>\<open>ImageEnhance.Brightness/Contrast/Color(im).enhance(factor)\<close>,
  \<^verbatim>\<open>im.filter(ImageFilter.GaussianBlur(radius))\<close>, \<^verbatim>\<open>Image.alpha_composite(im1, im2)\<close>,
  and the file codec behind \<^verbatim>\<open>Image.open(path).convert('RGBA')\<close> and
  \<^verbatim>\<open>im.save(path, 'PNG', optimize=True)\<close>. The pipeline takes them as a parameter.
  Factors are the decimal literals of the source, as rationals.
\<close>

record imaging =
  Brightness :: "rat \<Rightarrow> rgb image \<Rightarrow> rgb image"
  Contrast :: "rat \<Rightarrow> rgb image \<Rightarrow> rgb image"
  Color :: "rat \<Rightarrow> rgb image \<Rightarrow> rgb image"
  GaussianBlur :: "nat \<Rightarrow> rgba image \<Rightarrow> rgba image"
  alpha_composite :: "rgba image \<Rightarrow> rgba image \<Rightarrow> error + rgba image"
  decode_RGBA :: "byte list \<Rightarrow> rgba image option"
  encode_PNG :: "rgba image \<Rightarrow> byte list"

text \<open>
  The library's contract on sizes: enhancing and blurring keep the size, and compositing
  two images of one size succeeds with an image of that size.
\<close>

definition preserves_size :: "imaging \<Rightarrow> bool" where
  "preserves_size lib \<longleftrightarrow>
     (\<forall>f im. size_of (Brightness lib f im) = size_of im) \<and>
     (\<forall>f im. size_of (Contrast lib f im) = size_of im) \<and>
     (\<forall>f im. size_of (Color lib f im) = size_of im) \<and>
     (\<forall>r im. size_of (GaussianBlur lib r im) = size_of im) \<and>
     (\<forall>dst src. size_of dst = size_of src \<longrightarrow>
        (\<exists>out. alpha_composite lib dst src = Inr out \<and> size_of out = size_of dst))"

section \<open>The pipeline of \<^verbatim>\<open>brighten_icon\<close>\<close>

text \<open>Lines 19-22: split the channels, merge red, green and blue into the RGB working image.\<close>

definition rgb_working :: "rgba image \<Rightarrow> error + rgb image" where
  "rgb_working img = (case split_RGBA img of (r, g, b, a) \<Rightarrow> merge_RGB r g b)"

text \<open>Lines 25-34: the three enhancers, each on the image the previous one returned.\<close>

definition enhance :: "imaging \<Rightarrow> rgb image \<Rightarrow> rgb image" where
  "enhance lib rgb_img =
     (let rgb_img = Brightness lib (14 / 10) rgb_img;
          rgb_img = Contrast lib (13 / 10) rgb_img;
          rgb_img = Color lib (15 / 10) rgb_img
      in rgb_img)"

text \<open>Lines 19-40: the enhanced RGB image with the alpha band of line 19 attached.\<close>

definition brightened :: "imaging \<Rightarrow> rgba image \<Rightarrow> error + rgba image" where
  "brightened lib img =
     (case split_RGBA img of (r, g, b, a) \<Rightarrow>
        (case merge_RGB r g b of
           Inl e \<Rightarrow> Inl e
         | Inr rgb_img \<Rightarrow>
             (case split_RGB (enhance lib rgb_img) of (r_new, g_new, b_new) \<Rightarrow>
                merge_RGBA r_new g_new b_new a)))"

text \<open>Lines 44-45: the glow layer, a blurred copy.\<close>

definition glow :: "imaging \<Rightarrow> rgba image \<Rightarrow> rgba image" where
  "glow lib b = GaussianBlur lib 4 b"

text \<open>Lines 16-48 on a decoded image: \<^verbatim>\<open>final = Image.alpha_composite(glow, brightened)\<close>.\<close>

definition brighten_icon_px :: "imaging \<Rightarrow> rgba image \<Rightarrow> error + rgba image" where
  "brighten_icon_px lib img =
     (case brightened lib img of
        Inl e \<Rightarrow> Inl e
      | Inr b \<Rightarrow> alpha_composite lib (glow lib b) b)"

section \<open>Files, standard output and the entry point\<close>

record world =
  files :: "string \<Rightarrow> byte list option"
  writable :: "string \<Rightarrow> bool"
  stdout :: "string list"

definition print :: "string \<Rightarrow> world \<Rightarrow> world" where
  "print line w = w\<lparr>stdout := stdout w @ [line]\<rparr>"

text \<open>A path as an exception's text shows it, between single quotes.\<close>

definition quoted :: "string \<Rightarrow> string" where
  "quoted path = CHR 0x27 # path @ [CHR 0x27]"

text \<open>
  Line 16: \<^verbatim>\<open>Image.open(input_path).convert('RGBA')\<close>. Whatever the codec refuses is
  reported as one exception.
\<close>

definition open_RGBA :: "imaging \<Rightarrow> string \<Rightarrow> world \<Rightarrow> error + rgba image" where
  "open_RGBA lib path w =
     (case files w path of
        None \<Rightarrow> Inl (FileNotFoundError (''[Errno 2] No such file or directory: '' @ quoted path))
      | Some bytes \<Rightarrow>
          (case decode_RGBA lib bytes of
             None \<Rightarrow> Inl (UnidentifiedImageError (''cannot identify image file '' @ quoted path))
           | Some img \<Rightarrow> Inr img))"

text \<open>
  Line 51: \<^verbatim>\<open>final.save(output_path, 'PNG', optimize=True)\<close>. A path that cannot be
  written, for whatever reason, is reported as one exception.
\<close>

definition save_PNG :: "imaging \<Rightarrow> rgba image \<Rightarrow> string \<Rightarrow> world \<Rightarrow> error + world" where
  "save_PNG lib im path w =
     (if writable w path then Inr (w\<lparr>files := (files w)(path \<mapsto> encode_PNG lib im)\<rparr>)
      else Inl (PermissionError (''[Errno 13] Permission denied: '' @ quoted path)))"

text \<open>
  Lines 12-56. An exception leaves with the world as it was when it was raised; nothing
  before the save changes the world.
\<close>

definition brighten_icon :: "imaging \<Rightarrow> string \<Rightarrow> string \<Rightarrow> world \<Rightarrow> error \<times> world + world" where
  "brighten_icon lib input_path output_path w =
     (case open_RGBA lib input_path w of
        Inl e \<Rightarrow> Inl (e, w)
      | Inr img \<Rightarrow>
          (case brighten_icon_px lib img of
             Inl e \<Rightarrow> Inl (e, w)
           | Inr final \<Rightarrow>
               (case save_PNG lib final output_path w of
                  Inl e \<Rightarrow> Inl (e, w)
                | Inr w1 \<Rightarrow>
                    Inr (print ''   - Glow: 4px Gaussian blur (subtle)''
                        (print ''   - Saturation: 1.5x''
                        (print ''   - Contrast: 1.3x''
                        (print ''   - Brightness: 1.4x (subtle)''
                        (print (''[SUCCESS] Brightened icon saved to: '' @ output_path) w1))))))))"

text \<open>The input the script cannot load: no file at the path, or bytes the codec refuses.\<close>

definition undecodable :: "imaging \<Rightarrow> world \<Rightarrow> string \<Rightarrow> bool" where
  "undecodable lib w path =
     (case files w path of None \<Rightarrow> True | Some bytes \<Rightarrow> decode_RGBA lib bytes = None)"

definition input_file :: string where
  "input_file = ''apps/web/public/notext.png''"

definition output_file :: string where
  "output_file = ''apps/web/public/notext-bright.png''"

text \<open>Lines 58-66: the exit status and the world the process leaves.\<close>

definition main :: "imaging \<Rightarrow> world \<Rightarrow> int \<times> world" where
  "main lib w =
     (case brighten_icon lib input_file output_file w of
        Inr w' \<Rightarrow> (0, w')
      | Inl (e, w') \<Rightarrow> (1, print (''[ERROR] '' @ str_of e) w'))"

section \<open>The library's arithmetic, from the specification\<close>

text \<open>
  Pillow's enhancers and compositing are not part of the repository; sections 3 and 4.1
  of the specification describe them, and the definitions of this section follow its
  words. They are used only where a statement is about what the library computes.
\<close>

text \<open>
  Modelled from the spec: the storing of a computed channel value, missing with Pillow's
  code. A value is computed over the rationals and "clamped to the valid 8-bit range
  [0,255]". The specification does not say how a value inside the range is rounded to an
  integer, so the rounding \<open>rnd\<close> is a parameter.
\<close>

definition val :: "byte \<Rightarrow> rat" where
  "val c = of_nat (unat c)"

definition to8 :: "(rat \<Rightarrow> int) \<Rightarrow> rat \<Rightarrow> byte" where
  "to8 rnd v = (if v \<le> 0 then 0 else if 255 \<le> v then 255 else word_of_int (rnd v))"

definition map_rgb :: "(byte \<Rightarrow> byte) \<Rightarrow> rgb \<Rightarrow> rgb" where
  "map_rgb f p = (case p of (r, g, b) \<Rightarrow> (f r, f g, f b))"

text \<open>
  Modelled from the spec: \<^verbatim>\<open>ImageEnhance.Brightness\<close>, "scale every pixel's luminance
  by factor ...; clamp resulting channel values to the valid 8-bit range".
\<close>

definition spec_Brightness :: "(rat \<Rightarrow> int) \<Rightarrow> rat \<Rightarrow> rgb image \<Rightarrow> rgb image" where
  "spec_Brightness rnd f im =
     im\<lparr>px := (\<lambda>x y. map_rgb (\<lambda>c. to8 rnd (f * val c)) (px im x y))\<rparr>"

text \<open>
  Modelled from the spec: the "image's mean gray level" of Pillow's contrast enhancer.
  The gray level of a pixel is a parameter \<open>luma\<close>: the specification names it ("its own
  gray-level (luminance) equivalent") without giving the weights. The mean is taken over
  the \<open>width * height\<close> pixels of the image.
\<close>

definition mean_gray :: "(rgb \<Rightarrow> byte) \<Rightarrow> rgb image \<Rightarrow> rat" where
  "mean_gray luma im =
     sum_list (map (\<lambda>y. sum_list (map (\<lambda>x. val (luma (px im x y))) [0..<width im]))
                   [0..<height im])
       / of_nat (width im * height im)"

text \<open>
  Modelled from the spec: \<^verbatim>\<open>ImageEnhance.Contrast\<close>, "scale deviation from the image's
  mean gray level by factor".
\<close>

definition spec_Contrast ::
    "(rat \<Rightarrow> int) \<Rightarrow> (rgb \<Rightarrow> byte) \<Rightarrow> rat \<Rightarrow> rgb image \<Rightarrow> rgb image" where
  "spec_Contrast rnd luma f im =
     (let m = mean_gray luma im
      in im\<lparr>px := (\<lambda>x y. map_rgb (\<lambda>c. to8 rnd (m + f * (val c - m))) (px im x y))\<rparr>)"

text \<open>
  Modelled from the spec: \<^verbatim>\<open>ImageEnhance.Color\<close>, "scale the distance of each pixel's
  color from its own gray-level (luminance) equivalent by factor".
\<close>

definition spec_Color ::
    "(rat \<Rightarrow> int) \<Rightarrow> (rgb \<Rightarrow> byte) \<Rightarrow> rat \<Rightarrow> rgb image \<Rightarrow> rgb image" where
  "spec_Color rnd luma f im =
     im\<lparr>px := (\<lambda>x y. let g = val (luma (px im x y))
                       in map_rgb (\<lambda>c. to8 rnd (g + f * (val c - g))) (px im x y))\<rparr>"

text \<open>
  Modelled from the spec: the "fully desaturated grayscale" version of an image, every
  channel being the pixel's gray level.
\<close>

definition grayscale :: "(rgb \<Rightarrow> byte) \<Rightarrow> rgb image \<Rightarrow> rgb image" where
  "grayscale luma im = im\<lparr>px := (\<lambda>x y. let g = luma (px im x y) in (g, g, g))\<rparr>"

text \<open>
  Modelled from the spec: \<^verbatim>\<open>Image.alpha_composite\<close>, step 8 of section 4.1:
  "resultColor = enhancedColor * enhancedAlpha + glowColor * glowAlpha * (1 - enhancedAlpha),
  resultAlpha = enhancedAlpha + glowAlpha * (1 - enhancedAlpha), with all channel
  arithmetic performed in normalized [0,1] space and results clamped back to 8-bit
  integers". The first argument is the background, the second the foreground; images of
  different sizes are refused.
\<close>

definition normalized :: "byte \<Rightarrow> rat" where
  "normalized c = val c / 255"

definition over_color :: "(rat \<Rightarrow> int) \<Rightarrow> byte \<Rightarrow> byte \<Rightarrow> byte \<Rightarrow> byte \<Rightarrow> byte" where
  "over_color rnd e ea g ga =
     to8 rnd (255 * (normalized e * normalized ea +
                     normalized g * normalized ga * (1 - normalized ea)))"

definition over_alpha :: "(rat \<Rightarrow> int) \<Rightarrow> byte \<Rightarrow> byte \<Rightarrow> byte" where
  "over_alpha rnd ea ga = to8 rnd (255 * (normalized ea + normalized ga * (1 - normalized ea)))"

definition over :: "(rat \<Rightarrow> int) \<Rightarrow> rgba \<Rightarrow> rgba \<Rightarrow> rgba" where
  "over rnd bg fg =
     (case bg of (gr, gg, gb, ga) \<Rightarrow>
      case fg of (er, eg, eb, ea) \<Rightarrow>
        (over_color rnd er ea gr ga, over_color rnd eg ea gg ga, over_color rnd eb ea gb ga,
         over_alpha rnd ea ga))"

definition spec_alpha_composite ::
    "(rat \<Rightarrow> int) \<Rightarrow> rgba image \<Rightarrow> rgba image \<Rightarrow> error + rgba image" where
  "spec_alpha_composite rnd im1 im2 =
     (if size_of im1 \<noteq> size_of im2 then Inl (ValueError ''images do not match'')
      else Inr \<lparr>width = width im1, height = height im1,
                px = (\<lambda>x y. over rnd (px im1 x y) (px im2 x y))\<rparr>)"

text \<open>
  Modelled from the spec: what steps 3 to 5 of section 4.1 say of an enhancer's result,
  read on integers. The three channels of a pixel are scaled by the factor about a base
  level (0 for brightness, the image's mean gray level for contrast, the pixel's own gray
  level for saturation), rounded, and clamped "to the valid 8-bit range [0,255]".
\<close>

definition clamp255 :: "int \<Rightarrow> int" where
  "clamp255 k = max 0 (min 255 k)"

definition scaled_about :: "(rat \<Rightarrow> int) \<Rightarrow> rat \<Rightarrow> rat \<Rightarrow> rgb \<Rightarrow> int \<times> int \<times> int" where
  "scaled_about rnd base f p =
     (case p of (r, g, b) \<Rightarrow>
        (clamp255 (rnd (base + f * (val r - base))),
         clamp255 (rnd (base + f * (val g - base))),
         clamp255 (rnd (base + f * (val b - base)))))"

text \<open>The channel values of an RGB pixel, as integers.\<close>

definition channels :: "rgb \<Rightarrow> int \<times> int \<times> int" where
  "channels p = (case p of (r, g, b) \<Rightarrow> (uint r, uint g, uint b))"

text \<open>What the statements below need of a rounding: integers stay, and order is kept.\<close>

definition exact_on_integers :: "(rat \<Rightarrow> int) \<Rightarrow> bool" where
  "exact_on_integers rnd \<longleftrightarrow> (\<forall>k. rnd (of_int k) = k)"

definition monotone_rounding :: "(rat \<Rightarrow> int) \<Rightarrow> bool" where
  "monotone_rounding rnd \<longleftrightarrow> (\<forall>u v. u \<le> v \<longrightarrow> rnd u \<le> rnd v)"

section \<open>A concrete library\<close>

text \<open>
  One library that meets the contract, for running the pipeline on concrete images:
  the arithmetic above with rounding towards minus infinity, gray level with the
  ITU-R 601-2 weights, a box filter of the given radius (edges repeated) in place of the
  Gaussian kernel, and a raw file format: two bytes for width and height, then the
  pixels row by row, four bytes each.
\<close>

fun luma601 :: "rgb \<Rightarrow> byte" where
  "luma601 (r, g, b) = word_of_nat ((299 * unat r + 587 * unat g + 114 * unat b) div 1000)"

definition window :: "nat \<Rightarrow> nat \<Rightarrow> nat \<Rightarrow> nat list" where
  "window r n c = map (\<lambda>i. min (n - 1) (c + i - r)) [0..<2 * r + 1]"

definition box_blur :: "nat \<Rightarrow> rgba image \<Rightarrow> rgba image" where
  "box_blur r im =
     im\<lparr>px := (\<lambda>x y.
        let ps = concat (map (\<lambda>v. map (\<lambda>u. px im u v) (window r (width im) x))
                             (window r (height im) y));
            avg = (\<lambda>sel. to8 floor (sum_list (map (\<lambda>p. val (sel p)) ps) / of_nat (length ps)))
        in (avg red, avg green, avg blue, avg alpha))\<rparr>"

fun pixels_of :: "byte list \<Rightarrow> rgba list" where
  "pixels_of (r # g # b # a # rest) = (r, g, b, a) # pixels_of rest"
| "pixels_of _ = []"

fun raw_decode :: "byte list \<Rightarrow> rgba image option" where
  "raw_decode (w # h # rest) =
     (if length rest = 4 * (unat w * unat h)
      then Some \<lparr>width = unat w, height = unat h,
                 px = (\<lambda>x y. pixels_of rest ! (y * unat w + x))\<rparr>
      else None)"
| "raw_decode _ = None"

definition raw_encode :: "rgba image \<Rightarrow> byte list" where
  "raw_encode im =
     word_of_nat (width im) # word_of_nat (height im) #
     concat (map (\<lambda>y. concat (map (\<lambda>x. case px im x y of (r, g, b, a) \<Rightarrow> [r, g, b, a])
                                    [0..<width im]))
                 [0..<height im])"

definition example_lib :: imaging where
  "example_lib =
     \<lparr>Brightness = spec_Brightness floor,
      Contrast = spec_Contrast floor luma601,
      Color = spec_Color floor luma601,
      GaussianBlur = box_blur,
      alpha_composite = spec_alpha_composite floor,
      decode_RGBA = raw_decode,
      encode_PNG = raw_encode\<rparr>"

text \<open>
  A 2 x 1 icon (an opaque neon-blue pixel beside a transparent one), its file, and
  worlds holding at the input path that file, a file that is no image, and nothing.
\<close>

definition icon :: "rgba image" where
  "icon = \<lparr>width = 2, height = 1,
           px = (\<lambda>x y. if x = 0 then (0, 150, 255, 255) else (0, 0, 0, 0))\<rparr>"

definition opaque_icon :: "rgba image" where
  "opaque_icon = \<lparr>width = 2, height = 1,
           px = (\<lambda>x y. if x = 0 then (0, 150, 255, 255) else (10, 20, 30, 255))\<rparr>"

definition icon_rgb :: "rgb image" where
  "icon_rgb = \<lparr>width = 2, height = 1,
               px = (\<lambda>x y. if x = 0 then (0, 150, 255) else (0, 0, 0))\<rparr>"

text \<open>A single half-transparent pixel whose enhancement overflows at both ends of the range.\<close>

definition swatch :: "rgba image" where
  "swatch = \<lparr>width = 1, height = 1, px = (\<lambda>x y. (200, 100, 50, 128))\<rparr>"

definition icon_file :: "byte list" where
  "icon_file = [2, 1, 0, 150, 255, 255, 0, 0, 0, 0]"

definition icon_world :: world where
  "icon_world = \<lparr>files = [input_file \<mapsto> icon_file], writable = (\<lambda>p. True), stdout = []\<rparr>"

definition garbled_world :: world where
  "garbled_world = \<lparr>files = [input_file \<mapsto> [7]], writable = (\<lambda>p. True), stdout = []\<rparr>"

definition empty_world :: world where
  "empty_world = \<lparr>files = (\<lambda>p. None), writable = (\<lambda>p. True), stdout = []\<rparr>"

section \<open>Structure of the pipeline\<close>

lemma size_of_getband: "size_of (getband sel im) = size_of im"
  by (simp add: size_of_def getband_def)

lemma rgb_working_ok:
  "rgb_working img = Inr \<lparr>width = width img, height = height img,
       px = (\<lambda>x y. (red (px img x y), green (px img x y), blue (px img x y)))\<rparr>"
  by (simp add: rgb_working_def split_RGBA_def merge_RGB_def size_of_getband)
     (simp add: getband_def)

lemma size_of_enhance:
  "preserves_size lib \<Longrightarrow> size_of (enhance lib im) = size_of im"
  by (simp add: preserves_size_def enhance_def Let_def)

lemma brightened_of_size:
  assumes s: "size_of (enhance lib (projr (rgb_working img))) = size_of img"
  shows "brightened lib img =
           Inr \<lparr>width = width img, height = height img,
                 px = (\<lambda>x y. case px (enhance lib (projr (rgb_working img))) x y of
                                 (r, g, b) \<Rightarrow> (r, g, b, alpha (px img x y)))\<rparr>"
proof -
  let ?rgb = "projr (rgb_working img)"
  have w: "rgb_working img = Inr ?rgb"
    by (simp add: rgb_working_ok)
  have m: "merge_RGB (getband red img) (getband green img) (getband blue img) = Inr ?rgb"
    using w by (simp add: rgb_working_def split_RGBA_def)
  from s have wh: "width (enhance lib ?rgb) = width img" "height (enhance lib ?rgb) = height img"
    by (simp_all add: size_of_def)
  show ?thesis
    unfolding brightened_def split_RGBA_def split_RGB_def
    by (simp add: m merge_RGBA_def size_of_getband s)
       (auto simp: getband_def wh fun_eq_iff split: prod.splits)
qed

lemma brightened_ok:
  assumes "preserves_size lib"
  shows "brightened lib img =
           Inr \<lparr>width = width img, height = height img,
                 px = (\<lambda>x y. case px (enhance lib (projr (rgb_working img))) x y of
                                 (r, g, b) \<Rightarrow> (r, g, b, alpha (px img x y)))\<rparr>"
proof -
  have "size_of (projr (rgb_working img)) = size_of img"
    by (simp add: rgb_working_ok size_of_def)
  with assms have "size_of (enhance lib (projr (rgb_working img))) = size_of img"
    by (simp add: size_of_enhance)
  then show ?thesis
    by (rule brightened_of_size)
qed

lemma brightened_alpha:
  "brightened lib img = Inr e \<Longrightarrow> getband alpha e = getband alpha img"
  unfolding brightened_def split_RGBA_def split_RGB_def merge_RGBA_def
  by (auto simp: rgb_working_ok getband_def size_of_def split: sum.splits if_splits)

lemma brightened_size:
  "brightened lib img = Inr e \<Longrightarrow> size_of e = size_of img"
  using brightened_alpha [of lib img e] size_of_getband [of alpha e] size_of_getband [of alpha img]
  by simp

lemma preserves_size_blur:
  "preserves_size lib \<Longrightarrow> size_of (GaussianBlur lib r im) = size_of im"
  by (simp add: preserves_size_def)

lemma preserves_size_composite:
  "preserves_size lib \<Longrightarrow> size_of dst = size_of src \<Longrightarrow>
     \<exists>out. alpha_composite lib dst src = Inr out \<and> size_of out = size_of dst"
  by (simp add: preserves_size_def)

lemma brighten_icon_px_ok:
  assumes "preserves_size lib" and "brightened lib img = Inr e"
  shows "\<exists>out. brighten_icon_px lib img = Inr out \<and> size_of out = size_of img"
proof -
  have g: "size_of (glow lib e) = size_of e"
    using assms(1) by (simp add: glow_def preserves_size_blur)
  from preserves_size_composite [OF assms(1) g] obtain out where
    "alpha_composite lib (glow lib e) e = Inr out" "size_of out = size_of (glow lib e)"
    by blast
  with g assms(2) show ?thesis
    by (simp add: brighten_icon_px_def brightened_size)
qed

lemma size_of_spec_Brightness: "size_of (spec_Brightness rnd f im) = size_of im"
  by (simp add: spec_Brightness_def size_of_def)

lemma size_of_spec_Contrast: "size_of (spec_Contrast rnd luma f im) = size_of im"
  by (simp add: spec_Contrast_def size_of_def Let_def)

lemma size_of_spec_Color: "size_of (spec_Color rnd luma f im) = size_of im"
  by (simp add: spec_Color_def size_of_def)

lemma size_of_box_blur: "size_of (box_blur r im) = size_of im"
  by (simp add: box_blur_def size_of_def)

lemma spec_alpha_composite_ok:
  "size_of dst = size_of src \<Longrightarrow>
     \<exists>out. spec_alpha_composite rnd dst src = Inr out \<and> size_of out = size_of dst"
  by (simp add: spec_alpha_composite_def size_of_def)

lemma preserves_size_example: "preserves_size example_lib"
proof -
  have "\<forall>dst src. size_of dst = size_of src \<longrightarrow>
          (\<exists>out. spec_alpha_composite floor dst src = Inr out \<and> size_of out = size_of dst)"
    using spec_alpha_composite_ok by blast
  then show ?thesis
    unfolding preserves_size_def example_lib_def
    by (simp add: size_of_spec_Brightness size_of_spec_Contrast size_of_spec_Color
        size_of_box_blur)
qed

lemma byte_le_255: "unat (c :: byte) \<le> 255"
proof -
  have "unat c < 2 ^ LENGTH(8)"
    by (rule unsigned_less)
  then show ?thesis
    by simp
qed

section \<open>Clamping and rounding\<close>

lemma val_nonneg: "0 \<le> val c"
  unfolding val_def by (rule of_nat_0_le_iff)

lemma val_le_255: "val c \<le> 255"
proof -
  have "(of_nat (unat c) :: rat) \<le> of_nat 255"
    using byte_le_255 [of c] by (simp only: of_nat_le_iff)
  then show ?thesis
    by (simp add: val_def)
qed

lemma val_of_int: "val c = of_int (uint c)"
  by (simp add: val_def)

lemma val_zero: "val c \<le> 0 \<Longrightarrow> c = 0"
  by (simp only: val_def of_nat_le_0_iff unat_0_iff)

lemma val_full: "255 \<le> val c \<Longrightarrow> c = 255"
proof -
  assume "255 \<le> val c"
  then have "(of_nat 255 :: rat) \<le> of_nat (unat c)"
    by (simp add: val_def)
  then have "255 \<le> unat c"
    by (simp only: of_nat_le_iff)
  with byte_le_255 [of c] have "unat c = unat (255 :: byte)"
    by simp
  then show ?thesis
    by (simp only: word_unat_eq_iff)
qed

lemma to8_val:
  assumes "exact_on_integers rnd"
  shows "to8 rnd (val c) = c"
proof -
  have "rnd (of_int (uint c)) = uint c"
    using assms unfolding exact_on_integers_def by blast
  then have "rnd (val c) = uint c"
    by (simp only: val_of_int)
  then have "word_of_int (rnd (val c)) = c"
    by simp
  then show ?thesis
    using val_zero [of c] val_full [of c] by (auto simp: to8_def)
qed

lemma to8_lower:
  assumes "exact_on_integers rnd" and "monotone_rounding rnd" and "val a \<le> v"
  shows "unat a \<le> unat (to8 rnd v)"
proof (cases "v \<le> 0")
  case True
  with assms(3) have "a = 0"
    using val_zero [of a] by simp
  then show ?thesis by simp
next
  case False
  show ?thesis
  proof (cases "255 \<le> v")
    case True
    with False have "to8 rnd v = 255"
      by (simp add: to8_def)
    then show ?thesis
      using byte_le_255 [of a] by simp
  next
    case small: False
    have lo: "uint a \<le> rnd v"
    proof -
      have "rnd (val a) \<le> rnd v"
        using assms(2,3) by (simp add: monotone_rounding_def)
      moreover have "rnd (of_int (uint a)) = uint a"
        using assms(1) unfolding exact_on_integers_def by blast
      ultimately show ?thesis
        by (simp only: val_of_int)
    qed
    have hi: "rnd v \<le> 255"
    proof -
      have "rnd v \<le> rnd (of_int 255)"
        using assms(2) small by (simp add: monotone_rounding_def)
      then show ?thesis
        using assms(1) by (simp only: exact_on_integers_def)
    qed
    have "0 \<le> rnd v"
      using lo uint_ge_0 [of a] by linarith
    with hi have "uint (word_of_int (rnd v) :: byte) = rnd v"
      by (simp add: uint_word_of_int)
    with lo have "uint a \<le> uint (to8 rnd v)"
      using False small by (simp add: to8_def)
    then show ?thesis
      by (simp add: word_le_nat_alt [symmetric] word_le_def)
  qed
qed

lemma exact_floor: "exact_on_integers floor"
  by (simp add: exact_on_integers_def)

lemma monotone_floor: "monotone_rounding floor"
  by (simp add: monotone_rounding_def floor_mono)

lemma map_rgb_id: "(\<And>c. f c = c) \<Longrightarrow> map_rgb f p = p"
  by (simp add: map_rgb_def split: prod.splits)

lemma spec_Brightness_one:
  assumes "exact_on_integers rnd"
  shows "spec_Brightness rnd 1 im = im"
  by (simp add: spec_Brightness_def to8_val [OF assms] map_rgb_id)

lemma spec_Contrast_one:
  assumes "exact_on_integers rnd"
  shows "spec_Contrast rnd luma 1 im = im"
  by (simp add: spec_Contrast_def Let_def to8_val [OF assms] map_rgb_id)

lemma spec_Color_one:
  assumes "exact_on_integers rnd"
  shows "spec_Color rnd luma 1 im = im"
  by (simp add: spec_Color_def Let_def to8_val [OF assms] map_rgb_id)

lemma spec_Color_zero:
  assumes "exact_on_integers rnd"
  shows "spec_Color rnd luma 0 im = grayscale luma im"
  by (simp add: spec_Color_def grayscale_def Let_def to8_val [OF assms] map_rgb_def
      split: prod.splits)

lemma normalized_full: "normalized 255 = 1"
  by (simp add: normalized_def val_def)

lemma normalized_times_255: "255 * normalized c = val c"
  by (simp add: normalized_def)

lemma normalized_bounds: "0 \<le> normalized c" "normalized c \<le> 1"
  using val_nonneg [of c] val_le_255 [of c] by (simp_all add: normalized_def)

lemma over_opaque:
  assumes "exact_on_integers rnd" and "alpha fg = 255"
  shows "over rnd bg fg = fg"
proof -
  obtain gr gg gb ga where bg: "bg = (gr, gg, gb, ga)"
    by (cases bg) auto
  obtain er eg eb ea where fg: "fg = (er, eg, eb, ea)"
    by (cases fg) auto
  from assms(2) fg have ea: "ea = 255"
    by simp
  have v: "val (255 :: byte) = 255"
    by (simp add: val_def)
  have full: "to8 rnd 255 = 255"
    using to8_val [OF assms(1), of 255] by (simp only: v)
  show ?thesis
    by (simp add: over_def over_color_def over_alpha_def bg fg ea normalized_full
        normalized_times_255 to8_val [OF assms(1)] full)
qed

lemma over_alpha_lower:
  assumes "exact_on_integers rnd" and "monotone_rounding rnd"
  shows "unat (alpha fg) \<le> unat (alpha (over rnd bg fg))"
proof -
  obtain gr gg gb ga where bg: "bg = (gr, gg, gb, ga)"
    by (cases bg) auto
  obtain er eg eb ea where fg: "fg = (er, eg, eb, ea)"
    by (cases fg) auto
  have "0 \<le> normalized ga * (1 - normalized ea)"
    using normalized_bounds [of ga] normalized_bounds [of ea] by simp
  then have "255 * normalized ea \<le> 255 * (normalized ea + normalized ga * (1 - normalized ea))"
    by simp
  then have "val ea \<le> 255 * (normalized ea + normalized ga * (1 - normalized ea))"
    by (simp only: normalized_times_255)
  from to8_lower [OF assms this] show ?thesis
    by (simp add: over_def over_alpha_def bg fg)
qed

lemma final_pixels:
  assumes "preserves_size lib" and "alpha_composite lib = spec_alpha_composite rnd"
    and "brightened lib img = Inr e"
  shows "brighten_icon_px lib img =
           Inr \<lparr>width = width (glow lib e), height = height (glow lib e),
                 px = (\<lambda>x y. over rnd (px (glow lib e) x y) (px e x y))\<rparr>"
proof -
  have "size_of (glow lib e) = size_of e"
    using assms(1) by (simp add: glow_def preserves_size_blur)
  then show ?thesis
    by (simp add: brighten_icon_px_def assms(2,3) spec_alpha_composite_def)
qed

lemma to8_clamp:
  assumes "exact_on_integers rnd" and "monotone_rounding rnd"
  shows "uint (to8 rnd v) = clamp255 (rnd v)"
proof -
  have r0: "rnd 0 = 0"
    using assms(1) exact_on_integers_def [of rnd] of_int_0 [where ?'a = rat] by metis
  have r255: "rnd 255 = 255"
    using assms(1) exact_on_integers_def [of rnd] of_int_numeral [where ?'a = rat] by metis
  show ?thesis
  proof (cases "v \<le> 0")
    case True
    then have "rnd v \<le> 0"
      using assms(2) r0 monotone_rounding_def [of rnd] by metis
    with True show ?thesis
      by (simp add: to8_def clamp255_def)
  next
    case False
    show ?thesis
    proof (cases "255 \<le> v")
      case True
      then have "255 \<le> rnd v"
        using assms(2) r255 monotone_rounding_def [of rnd] by metis
      with True False show ?thesis
        by (simp add: to8_def clamp255_def)
    next
      case small: False
      have "0 \<le> rnd v"
        using assms(2) r0 False monotone_rounding_def [of rnd] by (metis linear)
      moreover have "rnd v \<le> 255"
        using assms(2) r255 small monotone_rounding_def [of rnd] by (metis linear)
      ultimately have "uint (word_of_int (rnd v) :: byte) = rnd v"
        by (simp add: uint_word_of_int)
      with \<open>0 \<le> rnd v\<close> \<open>rnd v \<le> 255\<close> False small show ?thesis
        by (simp add: to8_def clamp255_def)
    qed
  qed
qed

lemma channels_map_to8:
  assumes "exact_on_integers rnd" and "monotone_rounding rnd"
  shows "channels (map_rgb (\<lambda>c. to8 rnd (base + f * (val c - base))) p) = scaled_about rnd base f p"
  by (simp add: channels_def map_rgb_def scaled_about_def to8_clamp [OF assms] split: prod.splits)

lemma channels_spec_Brightness:
  assumes "exact_on_integers rnd" and "monotone_rounding rnd"
  shows "channels (px (spec_Brightness rnd f im) x y) = scaled_about rnd 0 f (px im x y)"
  using channels_map_to8 [OF assms, of 0 f "px im x y"]
  by (simp add: spec_Brightness_def)

lemma channels_spec_Contrast:
  assumes "exact_on_integers rnd" and "monotone_rounding rnd"
  shows "channels (px (spec_Contrast rnd luma f im) x y) =
           scaled_about rnd (mean_gray luma im) f (px im x y)"
  by (simp add: spec_Contrast_def Let_def channels_map_to8 [OF assms])

lemma channels_spec_Color:
  assumes "exact_on_integers rnd" and "monotone_rounding rnd"
  shows "channels (px (spec_Color rnd luma f im) x y) =
           scaled_about rnd (val (luma (px im x y))) f (px im x y)"
  by (simp add: spec_Color_def Let_def channels_map_to8 [OF assms])

lemma channels_inject: "channels p = channels q \<Longrightarrow> p = q"
  by (auto simp: channels_def word_uint_eq_iff split: prod.splits)

lemma mean_gray_single:
  "width im = 1 \<Longrightarrow> height im = 1 \<Longrightarrow> mean_gray luma im = val (luma (px im 0 0))"
  by (simp add: mean_gray_def)

section \<open>Running the script\<close>

lemma open_RGBA_undecodable:
  "undecodable lib w path \<Longrightarrow> \<exists>e. open_RGBA lib path w = Inl e"
  by (auto simp: undecodable_def open_RGBA_def split: option.splits)

lemma open_RGBA_decodable:
  "\<not> undecodable lib w path \<Longrightarrow> \<exists>img. open_RGBA lib path w = Inr img"
  by (auto simp: undecodable_def open_RGBA_def split: option.splits)

lemma brighten_icon_undecodable:
  "undecodable lib w input_path \<Longrightarrow> \<exists>e. brighten_icon lib input_path output_path w = Inl (e, w)"
  using open_RGBA_undecodable [of lib w input_path]
  by (auto simp: brighten_icon_def)

lemma brighten_icon_success:
  assumes "preserves_size lib" and "\<not> undecodable lib w input_path" and "writable w output_path"
  shows "\<exists>w'. brighten_icon lib input_path output_path w = Inr w'"
proof -
  from assms(2) obtain img where i: "open_RGBA lib input_path w = Inr img"
    using open_RGBA_decodable by blast
  from brightened_ok [OF assms(1), of img] obtain e where "brightened lib img = Inr e"
    by blast
  from brighten_icon_px_ok [OF assms(1) this] obtain out where
    o: "brighten_icon_px lib img = Inr out"
    by blast
  show ?thesis
    using i o assms(3) by (simp add: brighten_icon_def save_PNG_def)
qed

lemma brighten_icon_stdout:
  assumes "brighten_icon lib input_path output_path w = Inr w'"
  shows "stdout w' = stdout w @
           [''[SUCCESS] Brightened icon saved to: '' @ output_path,
            ''   - Brightness: 1.4x (subtle)'',
            ''   - Contrast: 1.3x'',
            ''   - Saturation: 1.5x'',
            ''   - Glow: 4px Gaussian blur (subtle)'']"
  using assms unfolding brighten_icon_def save_PNG_def print_def
  by (auto split: sum.splits if_splits)

lemma undecodable_empty_world: "undecodable example_lib empty_world p"
  by (simp add: undecodable_def empty_world_def)

lemma decodable_icon_world: "\<not> undecodable example_lib icon_world input_file"
  by (simp add: undecodable_def icon_world_def example_lib_def icon_file_def)

section \<open>The alpha plane\<close>

text \<open>
  Claim C1. Whatever the library's enhancers compute, the alpha band of the enhanced RGBA
  image is the band that line 19 split off the input: the enhancers only ever receive the
  RGB working image, and line 40 merges the untouched band. In particular a pixel whose
  input alpha is 0 has alpha 0 in the enhanced image, before the glow. The enhanced image
  exists whenever the library keeps image sizes.
\<close>

theorem alpha_plane_preserved:
  "(\<forall>e. brightened lib img = Inr e \<longrightarrow>
      snd (snd (snd (split_RGBA e))) = snd (snd (snd (split_RGBA img))) \<and>
      (\<forall>x y. alpha (px img x y) = 0 \<longrightarrow> alpha (px e x y) = 0)) \<and>
   (preserves_size lib \<longrightarrow> (\<exists>e. brightened lib img = Inr e))"
proof (intro conjI allI impI)
  fix e assume e: "brightened lib img = Inr e"
  then have a: "getband alpha e = getband alpha img"
    by (rule brightened_alpha)
  then show "snd (snd (snd (split_RGBA e))) = snd (snd (snd (split_RGBA img)))"
    by (simp add: split_RGBA_def)
  fix x y assume z: "alpha (px img x y) = 0"
  have "px (getband alpha e) x y = px (getband alpha img) x y"
    by (simp only: a)
  with z show "alpha (px e x y) = 0"
    by (simp add: getband_def)
next
  assume "preserves_size lib"
  from brightened_ok [OF this, of img] show "\<exists>e. brightened lib img = Inr e"
    by blast
qed

theorem alpha_plane_preserved_witness:
  "preserves_size example_lib \<and> alpha (px icon 1 0) = 0 \<and>
   (\<exists>e. brightened example_lib icon = Inr e \<and>
        snd (snd (snd (split_RGBA e))) = snd (snd (snd (split_RGBA icon))) \<and>
        alpha (px e 1 0) = 0)"
proof -
  note t = alpha_plane_preserved [of example_lib icon]
  have a: "alpha (px icon 1 0) = 0"
    by (simp add: icon_def)
  from t preserves_size_example obtain e where e: "brightened example_lib icon = Inr e"
    by blast
  with t have "snd (snd (snd (split_RGBA e))) = snd (snd (snd (split_RGBA icon)))"
    and "\<forall>x y. alpha (px icon x y) = 0 \<longrightarrow> alpha (px e x y) = 0"
    by blast+
  with a e preserves_size_example show ?thesis
    by blast
qed

section \<open>Order of the enhancers\<close>

text \<open>
  Claim C3. For every library, the enhancement stage is the saturation enhancer at 1.5
  applied to the result of the contrast enhancer at 1.3 applied to the result of the
  brightness enhancer at 1.4. With the enhancers as the specification describes them and
  a monotone rounding that leaves integers alone, for every input image and every pixel:
  the channels after brightness are the input channels times 1.4; after contrast they
  are those values scaled by 1.3 about the mean gray level of the brightened image;
  after saturation they are the contrast values scaled by 1.5 about that pixel's gray
  level; each time rounded and clamped to [0,255], never wrapped. The enhanced RGBA
  image carries the saturation stage's channels.
\<close>

theorem enhance_order:
  "(\<forall>im. enhance lib im =
      Color lib (15 / 10) (Contrast lib (13 / 10) (Brightness lib (14 / 10) im))) \<and>
   (Brightness lib = spec_Brightness rnd \<and> Contrast lib = spec_Contrast rnd luma \<and>
    Color lib = spec_Color rnd luma \<and> exact_on_integers rnd \<and> monotone_rounding rnd \<longrightarrow>
    (\<exists>rgb_img e. rgb_working img = Inr rgb_img \<and> brightened lib img = Inr e \<and>
       (let bri = Brightness lib (14 / 10) rgb_img;
            con = Contrast lib (13 / 10) bri;
            sat = Color lib (15 / 10) con
        in enhance lib rgb_img = sat \<and>
           (\<forall>x y.
              channels (px bri x y) = scaled_about rnd 0 (14 / 10) (px rgb_img x y) \<and>
              channels (px con x y) =
                scaled_about rnd (mean_gray luma bri) (13 / 10) (px bri x y) \<and>
              channels (px sat x y) =
                scaled_about rnd (val (luma (px con x y))) (15 / 10) (px con x y) \<and>
              px e x y = (case px sat x y of (r, g, b) \<Rightarrow> (r, g, b, alpha (px img x y)))))))"
proof (intro conjI allI impI)
  fix im show "enhance lib im =
      Color lib (15 / 10) (Contrast lib (13 / 10) (Brightness lib (14 / 10) im))"
    by (simp add: enhance_def Let_def)
next
  assume h: "Brightness lib = spec_Brightness rnd \<and> Contrast lib = spec_Contrast rnd luma \<and>
    Color lib = spec_Color rnd luma \<and> exact_on_integers rnd \<and> monotone_rounding rnd"
  then have ex: "exact_on_integers rnd" and mo: "monotone_rounding rnd"
    by simp_all
  let ?rgb = "projr (rgb_working img)"
  let ?bri = "Brightness lib (14 / 10) ?rgb"
  let ?con = "Contrast lib (13 / 10) ?bri"
  let ?sat = "Color lib (15 / 10) ?con"
  have w: "rgb_working img = Inr ?rgb"
    by (simp add: rgb_working_ok)
  have en: "enhance lib ?rgb = ?sat"
    by (simp add: enhance_def Let_def)
  have "size_of ?rgb = size_of img"
    by (simp add: rgb_working_ok size_of_def)
  then have "size_of (enhance lib ?rgb) = size_of img"
    using h by (simp add: en size_of_spec_Brightness size_of_spec_Contrast size_of_spec_Color)
  from brightened_of_size [OF this]
  have e: "brightened lib img =
           Inr \<lparr>width = width img, height = height img,
                 px = (\<lambda>x y. case px ?sat x y of
                                 (r, g, b) \<Rightarrow> (r, g, b, alpha (px img x y)))\<rparr>"
    by (simp only: en)
  have b: "channels (px ?bri x y) = scaled_about rnd 0 (14 / 10) (px ?rgb x y)" for x y
    using h channels_spec_Brightness [OF ex mo] by simp
  have c: "channels (px ?con x y) =
             scaled_about rnd (mean_gray luma ?bri) (13 / 10) (px ?bri x y)" for x y
    using h channels_spec_Contrast [OF ex mo] by simp
  have s: "channels (px ?sat x y) =
             scaled_about rnd (val (luma (px ?con x y))) (15 / 10) (px ?con x y)" for x y
    using h channels_spec_Color [OF ex mo] by simp
  show "\<exists>rgb_img e. rgb_working img = Inr rgb_img \<and> brightened lib img = Inr e \<and>
       (let bri = Brightness lib (14 / 10) rgb_img;
            con = Contrast lib (13 / 10) bri;
            sat = Color lib (15 / 10) con
        in enhance lib rgb_img = sat \<and>
           (\<forall>x y.
              channels (px bri x y) = scaled_about rnd 0 (14 / 10) (px rgb_img x y) \<and>
              channels (px con x y) =
                scaled_about rnd (mean_gray luma bri) (13 / 10) (px bri x y) \<and>
              channels (px sat x y) =
                scaled_about rnd (val (luma (px con x y))) (15 / 10) (px con x y) \<and>
              px e x y = (case px sat x y of (r, g, b) \<Rightarrow> (r, g, b, alpha (px img x y)))))"
    apply (rule exI [of _ ?rgb])
    apply (rule exI [of _ "\<lparr>width = width img, height = height img,
                 px = (\<lambda>x y. case px ?sat x y of
                                 (r, g, b) \<Rightarrow> (r, g, b, alpha (px img x y)))\<rparr>"])
    apply (simp only: Let_def)
    apply (intro conjI allI)
        apply (rule w)
       apply (rule e)
      apply (rule en)
     apply (rule b)
    apply (rule c)
    apply (rule s)
    apply simp
    done
qed

theorem enhance_order_witness:
  "Brightness example_lib = spec_Brightness floor \<and>
   Contrast example_lib = spec_Contrast floor luma601 \<and>
   Color example_lib = spec_Color floor luma601 \<and>
   exact_on_integers floor \<and> monotone_rounding floor \<and>
   (\<exists>rgb_img e. rgb_working swatch = Inr rgb_img \<and> brightened example_lib swatch = Inr e \<and>
      px rgb_img 0 0 = (200, 100, 50) \<and>
      px (Brightness example_lib (14 / 10) rgb_img) 0 0 = (255, 140, 70) \<and>
      px (Contrast example_lib (13 / 10) (Brightness example_lib (14 / 10) rgb_img)) 0 0 =
        (255, 132, 41) \<and>
      px (enhance example_lib rgb_img) 0 0 = (255, 119, 0) \<and>
      px e 0 0 = (255, 119, 0, 128))"
proof -
  have l: "Brightness example_lib = spec_Brightness floor"
    "Contrast example_lib = spec_Contrast floor luma601"
    "Color example_lib = spec_Color floor luma601"
    by (simp_all add: example_lib_def)
  from enhance_order [of example_lib floor luma601 swatch] l exact_floor monotone_floor
  obtain rgb_img e where w: "rgb_working swatch = Inr rgb_img"
    and e: "brightened example_lib swatch = Inr e"
    and r: "let bri = Brightness example_lib (14 / 10) rgb_img;
            con = Contrast example_lib (13 / 10) bri;
            sat = Color example_lib (15 / 10) con
        in enhance example_lib rgb_img = sat \<and>
           (\<forall>x y.
              channels (px bri x y) = scaled_about floor 0 (14 / 10) (px rgb_img x y) \<and>
              channels (px con x y) =
                scaled_about floor (mean_gray luma601 bri) (13 / 10) (px bri x y) \<and>
              channels (px sat x y) =
                scaled_about floor (val (luma601 (px con x y))) (15 / 10) (px con x y) \<and>
              px e x y = (case px sat x y of (r, g, b) \<Rightarrow> (r, g, b, alpha (px swatch x y))))"
    by blast
  let ?bri = "Brightness example_lib (14 / 10) rgb_img"
  let ?con = "Contrast example_lib (13 / 10) ?bri"
  let ?sat = "Color example_lib (15 / 10) ?con"
  from r have en: "enhance example_lib rgb_img = ?sat"
    and b: "channels (px ?bri 0 0) = scaled_about floor 0 (14 / 10) (px rgb_img 0 0)"
    and c: "channels (px ?con 0 0) =
              scaled_about floor (mean_gray luma601 ?bri) (13 / 10) (px ?bri 0 0)"
    and s: "channels (px ?sat 0 0) =
              scaled_about floor (val (luma601 (px ?con 0 0))) (15 / 10) (px ?con 0 0)"
    and p: "px e 0 0 = (case px ?sat 0 0 of (r, g, b) \<Rightarrow> (r, g, b, alpha (px swatch 0 0)))"
    by (simp_all only: Let_def)
  have p0: "px rgb_img 0 0 = (200, 100, 50)" and d: "width rgb_img = 1" "height rgb_img = 1"
    using w by (auto simp: rgb_working_ok swatch_def)
  have "channels (px ?bri 0 0) = scaled_about floor 0 (14 / 10) (200, 100, 50)"
    using b by (simp only: p0)
  also have "\<dots> = channels (255, 140, 70)"
    by code_simp
  finally have pb: "px ?bri 0 0 = (255, 140, 70)"
    by (rule channels_inject)
  have db: "width ?bri = 1" "height ?bri = 1"
    using d size_of_spec_Brightness [of floor "14 / 10" rgb_img]
    by (simp_all add: l size_of_def)
  have "mean_gray luma601 ?bri = val (luma601 (px ?bri 0 0))"
    by (rule mean_gray_single [OF db])
  also have "\<dots> = val (luma601 (255, 140, 70))"
    by (simp only: pb)
  also have "\<dots> = 166"
    by (simp add: val_def)
  finally have m: "mean_gray luma601 ?bri = 166" .
  have "channels (px ?con 0 0) = scaled_about floor 166 (13 / 10) (255, 140, 70)"
    using c by (simp only: m pb)
  also have "\<dots> = channels (255, 132, 41)"
    by code_simp
  finally have pc: "px ?con 0 0 = (255, 132, 41)"
    by (rule channels_inject)
  have g: "val (luma601 (255, 132, 41)) = 158"
    by (simp add: val_def)
  have "channels (px ?sat 0 0) = scaled_about floor 158 (15 / 10) (255, 132, 41)"
    using s by (simp only: pc g)
  also have "\<dots> = channels (255, 119, 0)"
    by code_simp
  finally have ps: "px ?sat 0 0 = (255, 119, 0)"
    by (rule channels_inject)
  have "px e 0 0 = (case (255, 119, 0) of (r, g, b) \<Rightarrow> (r, g, b, alpha (px swatch 0 0)))"
    using p by (simp only: ps)
  then have pe: "px e 0 0 = (255, 119, 0, 128)"
    by (simp add: swatch_def)
  from w e p0 pb pc ps pe en l exact_floor monotone_floor show ?thesis
    by auto
qed

section \<open>Compositing over the glow\<close>

text \<open>
  Claim C4. With compositing as the specification describes it, and an input whose alpha
  is 255 at every pixel, the composited output has the size of the enhanced image and
  equals it at every pixel: a foreground of alpha 1 over any background is the
  foreground. The blur may be any filter that keeps the size.
\<close>

theorem opaque_composite_noop:
  assumes "preserves_size lib" and "alpha_composite lib = spec_alpha_composite rnd"
    and "exact_on_integers rnd"
    and "\<forall>x y. x < width img \<and> y < height img \<longrightarrow> alpha (px img x y) = 255"
  shows "\<exists>e out. brightened lib img = Inr e \<and> brighten_icon_px lib img = Inr out \<and>
           size_of out = size_of e \<and>
           (\<forall>x y. x < width img \<and> y < height img \<longrightarrow> px out x y = px e x y)"
proof -
  from brightened_ok [OF assms(1), of img] obtain e where e: "brightened lib img = Inr e"
    by blast
  let ?out = "\<lparr>width = width (glow lib e), height = height (glow lib e),
                 px = (\<lambda>x y. over rnd (px (glow lib e) x y) (px e x y))\<rparr>"
  have out: "brighten_icon_px lib img = Inr ?out"
    using assms(1,2) e by (rule final_pixels)
  have s: "size_of ?out = size_of e"
    using assms(1) by (simp add: size_of_def glow_def preserves_size_blur [unfolded size_of_def])
  have a: "alpha (px e x y) = alpha (px img x y)" for x y
  proof -
    have "px (getband alpha e) x y = px (getband alpha img) x y"
      using brightened_alpha [OF e] by simp
    then show ?thesis by (simp add: getband_def)
  qed
  have "px ?out x y = px e x y" if "x < width img \<and> y < height img" for x y
  proof -
    have "alpha (px e x y) = 255"
      using that assms(4) a by simp
    then show ?thesis
      by (simp add: over_opaque [OF assms(3)])
  qed
  with e out s show ?thesis
    by blast
qed

theorem opaque_composite_noop_witness:
  "preserves_size example_lib \<and> alpha_composite example_lib = spec_alpha_composite floor \<and>
   exact_on_integers floor \<and>
   alpha (px opaque_icon 0 0) = 255 \<and> alpha (px opaque_icon 1 0) = 255 \<and>
   (\<exists>e out. brightened example_lib opaque_icon = Inr e \<and>
      brighten_icon_px example_lib opaque_icon = Inr out \<and> size_of out = size_of e \<and>
      px out 0 0 = px e 0 0 \<and> px out 1 0 = px e 1 0)"
proof -
  have c: "alpha_composite example_lib = spec_alpha_composite floor"
    by (simp add: example_lib_def)
  have o: "\<forall>x y. x < width opaque_icon \<and> y < height opaque_icon \<longrightarrow>
      alpha (px opaque_icon x y) = 255"
    by (simp add: opaque_icon_def)
  have d: "width opaque_icon = 2" "height opaque_icon = 1"
    by (simp_all add: opaque_icon_def)
  have a: "alpha (px opaque_icon 0 0) = 255" "alpha (px opaque_icon 1 0) = 255"
    by (simp_all add: opaque_icon_def)
  from opaque_composite_noop [OF preserves_size_example c exact_floor o]
  obtain e out where r: "brightened example_lib opaque_icon = Inr e"
    "brighten_icon_px example_lib opaque_icon = Inr out" "size_of out = size_of e"
    "\<forall>x y. x < 2 \<and> y < 1 \<longrightarrow> px out x y = px e x y"
    unfolding d by blast
  from r(4) have "px out 0 0 = px e 0 0" "px out 1 0 = px e 1 0"
    by simp_all
  with r(1-3) preserves_size_example c exact_floor a show ?thesis
    by blast
qed

text \<open>
  Claim C10. With compositing as the specification describes it and a monotone rounding
  that leaves integers alone, the pipeline succeeds and the alpha of every output pixel
  is at least the alpha of the input image at that pixel.
\<close>

theorem opacity_never_decreases:
  assumes "preserves_size lib" and "alpha_composite lib = spec_alpha_composite rnd"
    and "exact_on_integers rnd" and "monotone_rounding rnd"
  shows "\<exists>out. brighten_icon_px lib img = Inr out \<and>
           (\<forall>x y. unat (alpha (px img x y)) \<le> unat (alpha (px out x y)))"
proof -
  from brightened_ok [OF assms(1), of img] obtain e where e: "brightened lib img = Inr e"
    by blast
  let ?out = "\<lparr>width = width (glow lib e), height = height (glow lib e),
                 px = (\<lambda>x y. over rnd (px (glow lib e) x y) (px e x y))\<rparr>"
  have out: "brighten_icon_px lib img = Inr ?out"
    using assms(1,2) e by (rule final_pixels)
  have a: "alpha (px e x y) = alpha (px img x y)" for x y
  proof -
    have "px (getband alpha e) x y = px (getband alpha img) x y"
      using brightened_alpha [OF e] by simp
    then show ?thesis by (simp add: getband_def)
  qed
  have "unat (alpha (px img x y)) \<le> unat (alpha (px ?out x y))" for x y
    using over_alpha_lower [OF assms(3,4), of "px e x y" "px (glow lib e) x y"]
    by (simp add: a)
  with out show ?thesis
    by blast
qed

theorem opacity_never_decreases_witness:
  "preserves_size example_lib \<and> alpha_composite example_lib = spec_alpha_composite floor \<and>
   exact_on_integers floor \<and> monotone_rounding floor \<and>
   (\<exists>out. brighten_icon_px example_lib icon = Inr out \<and>
      255 \<le> unat (alpha (px out 0 0)) \<and> 0 \<le> unat (alpha (px out 1 0)))"
proof -
  have c: "alpha_composite example_lib = spec_alpha_composite floor"
    by (simp add: example_lib_def)
  have a: "unat (alpha (px icon 0 0)) = 255" "unat (alpha (px icon 1 0)) = 0"
    by (simp_all add: icon_def)
  from opacity_never_decreases [OF preserves_size_example c exact_floor monotone_floor, of icon]
  obtain out where r: "brighten_icon_px example_lib icon = Inr out"
    "\<forall>x y. unat (alpha (px icon x y)) \<le> unat (alpha (px out x y))"
    by blast
  from r(2) have "unat (alpha (px icon 0 0)) \<le> unat (alpha (px out 0 0))"
    by blast
  then have "255 \<le> unat (alpha (px out 0 0))"
    by (simp only: a)
  with r(1) preserves_size_example c exact_floor monotone_floor show ?thesis
    by auto
qed

section \<open>Dimensions\<close>

text \<open>
  Claim C5. For a library whose primitives keep the image size, the pipeline succeeds on
  every input image, and the RGB working image, its enhanced version, the enhanced RGBA
  image, the glow layer and the output all have the width and height of the input.
\<close>

theorem dimensions_preserved:
  assumes "preserves_size lib"
  shows "\<exists>rgb_img e out.
           rgb_working img = Inr rgb_img \<and> brightened lib img = Inr e \<and>
           brighten_icon_px lib img = Inr out \<and>
           size_of rgb_img = size_of img \<and> size_of (enhance lib rgb_img) = size_of img \<and>
           size_of e = size_of img \<and> size_of (glow lib e) = size_of img \<and>
           size_of out = size_of img \<and>
           width out = width img \<and> height out = height img"
proof -
  obtain rgb_img where w: "rgb_working img = Inr rgb_img" and ws: "size_of rgb_img = size_of img"
    by (simp add: rgb_working_ok size_of_def)
  have es: "size_of (enhance lib rgb_img) = size_of img"
    using assms ws by (simp add: size_of_enhance)
  from brightened_ok [OF assms, of img] obtain e where e: "brightened lib img = Inr e"
    by blast
  from brighten_icon_px_ok [OF assms e] obtain out where
    out: "brighten_icon_px lib img = Inr out" "size_of out = size_of img"
    by blast
  have g: "size_of (glow lib e) = size_of img"
    using assms e by (simp add: glow_def preserves_size_blur brightened_size)
  have wh: "width out = width img \<and> height out = height img"
    using out(2) by (simp add: size_of_def)
  have "size_of e = size_of img"
    using e by (rule brightened_size)
  with w ws es e out g wh show ?thesis
    by blast
qed

theorem dimensions_preserved_witness:
  "preserves_size example_lib \<and>
   (\<exists>rgb_img e out.
           rgb_working icon = Inr rgb_img \<and> brightened example_lib icon = Inr e \<and>
           brighten_icon_px example_lib icon = Inr out \<and>
           size_of rgb_img = (2, 1) \<and> size_of (enhance example_lib rgb_img) = (2, 1) \<and>
           size_of e = (2, 1) \<and> size_of (glow example_lib e) = (2, 1) \<and>
           size_of out = (2, 1) \<and>
           width out = 2 \<and> height out = 1)"
proof -
  have "size_of icon = (2, 1)" "width icon = 2" "height icon = 1"
    by (simp_all add: icon_def size_of_def)
  then show ?thesis
    using dimensions_preserved [OF preserves_size_example, of icon] preserves_size_example
    by simp
qed

section \<open>Failure and success of the script\<close>

text \<open>
  Claim C6. When there is no file at the input path, or the codec cannot decode it,
  \<^verbatim>\<open>brighten_icon\<close> raises with the world untouched, for any pair of paths; the
  script then exits with status 1, has written no file (the files are those it started
  with, the output path included) and has printed one line, \<^verbatim>\<open>[ERROR]\<close> followed by the
  exception's text.
\<close>

theorem decode_failure:
  "(undecodable lib w input_path \<longrightarrow>
      (\<exists>e. brighten_icon lib input_path output_path w = Inl (e, w))) \<and>
   (undecodable lib w input_file \<longrightarrow>
      fst (main lib w) = 1 \<and> fst (main lib w) \<noteq> 0 \<and>
      files (snd (main lib w)) = files w \<and>
      (\<exists>e. stdout (snd (main lib w)) = stdout w @ [''[ERROR] '' @ str_of e]))"
proof (intro conjI impI)
  assume "undecodable lib w input_path"
  then show "\<exists>e. brighten_icon lib input_path output_path w = Inl (e, w)"
    by (rule brighten_icon_undecodable)
next
  assume "undecodable lib w input_file"
  then obtain e where "brighten_icon lib input_file output_file w = Inl (e, w)"
    using brighten_icon_undecodable by blast
  then have m: "main lib w = (1, print (''[ERROR] '' @ str_of e) w)"
    by (simp add: main_def)
  show "fst (main lib w) = 1" by (simp add: m)
  show "fst (main lib w) \<noteq> 0" by (simp add: m)
  show "files (snd (main lib w)) = files w" by (simp add: m print_def)
  show "\<exists>e. stdout (snd (main lib w)) = stdout w @ [''[ERROR] '' @ str_of e]"
    by (rule exI [of _ e]) (simp add: m print_def)
qed

theorem decode_failure_witness:
  "undecodable example_lib empty_world input_file \<and>
   undecodable example_lib garbled_world input_file \<and>
   (\<exists>e. brighten_icon example_lib input_file output_file empty_world = Inl (e, empty_world)) \<and>
   fst (main example_lib empty_world) = 1 \<and>
   files (snd (main example_lib empty_world)) output_file = None \<and>
   (\<exists>e. stdout (snd (main example_lib empty_world)) = [''[ERROR] '' @ str_of e]) \<and>
   fst (main example_lib garbled_world) = 1 \<and>
   files (snd (main example_lib garbled_world)) output_file = None"
proof -
  have u: "undecodable example_lib empty_world input_file"
    by (rule undecodable_empty_world)
  have g: "undecodable example_lib garbled_world input_file"
    by (simp add: undecodable_def garbled_world_def example_lib_def)
  have "files empty_world output_file = None" "stdout empty_world = []"
    by (simp_all add: empty_world_def)
  moreover have "files garbled_world output_file = None"
    by (simp add: garbled_world_def input_file_def output_file_def)
  ultimately show ?thesis
    using u g decode_failure [of example_lib empty_world input_file output_file]
      decode_failure [of example_lib garbled_world input_file output_file]
    by simp
qed

text \<open>
  Claim C7. When \<^verbatim>\<open>brighten_icon\<close> returns, the script exits with status 0, having
  printed the success line, which ends with the output path, and then the four lines
  giving brightness 1.4x, contrast 1.3x, saturation 1.5x and the 4px glow. When it raises
  an exception, the script exits with status 1. It does return whenever the library keeps
  image sizes, the input file decodes and the output path can be written.
\<close>

theorem main_exit_status:
  "(\<forall>w'. brighten_icon lib input_file output_file w = Inr w' \<longrightarrow>
      main lib w = (0, w') \<and>
      stdout w' = stdout w @
           [''[SUCCESS] Brightened icon saved to: '' @ output_file,
            ''   - Brightness: 1.4x (subtle)'',
            ''   - Contrast: 1.3x'',
            ''   - Saturation: 1.5x'',
            ''   - Glow: 4px Gaussian blur (subtle)'']) \<and>
   (\<forall>e w'. brighten_icon lib input_file output_file w = Inl (e, w') \<longrightarrow>
      fst (main lib w) = 1) \<and>
   (preserves_size lib \<and> \<not> undecodable lib w input_file \<and> writable w output_file \<longrightarrow>
      (\<exists>w'. brighten_icon lib input_file output_file w = Inr w'))"
proof (intro conjI allI impI)
  fix w' assume r: "brighten_icon lib input_file output_file w = Inr w'"
  then show "main lib w = (0, w')"
    by (simp add: main_def)
  from r show "stdout w' = stdout w @
           [''[SUCCESS] Brightened icon saved to: '' @ output_file,
            ''   - Brightness: 1.4x (subtle)'',
            ''   - Contrast: 1.3x'',
            ''   - Saturation: 1.5x'',
            ''   - Glow: 4px Gaussian blur (subtle)'']"
    by (rule brighten_icon_stdout)
next
  fix e w' assume "brighten_icon lib input_file output_file w = Inl (e, w')"
  then show "fst (main lib w) = 1"
    by (simp add: main_def)
next
  assume "preserves_size lib \<and> \<not> undecodable lib w input_file \<and> writable w output_file"
  then show "\<exists>w'. brighten_icon lib input_file output_file w = Inr w'"
    using brighten_icon_success by blast
qed

theorem main_exit_status_witness:
  "preserves_size example_lib \<and> \<not> undecodable example_lib icon_world input_file \<and>
   writable icon_world output_file \<and>
   fst (main example_lib icon_world) = 0 \<and>
   stdout (snd (main example_lib icon_world)) =
     [''[SUCCESS] Brightened icon saved to: apps/web/public/notext-bright.png'',
      ''   - Brightness: 1.4x (subtle)'',
      ''   - Contrast: 1.3x'',
      ''   - Saturation: 1.5x'',
      ''   - Glow: 4px Gaussian blur (subtle)''] \<and>
   fst (main example_lib empty_world) = 1"
proof -
  note t = main_exit_status [of example_lib icon_world]
  have w: "writable icon_world output_file" "stdout icon_world = []"
    by (simp_all add: icon_world_def)
  from t preserves_size_example decodable_icon_world w(1)
  obtain w' where r: "brighten_icon example_lib input_file output_file icon_world = Inr w'"
    by blast
  with t have "main example_lib icon_world = (0, w')"
    and "stdout w' = stdout icon_world @
           [''[SUCCESS] Brightened icon saved to: '' @ output_file,
            ''   - Brightness: 1.4x (subtle)'',
            ''   - Contrast: 1.3x'',
            ''   - Saturation: 1.5x'',
            ''   - Glow: 4px Gaussian blur (subtle)'']"
    by blast+
  then have ok: "fst (main example_lib icon_world) = 0"
    "stdout (snd (main example_lib icon_world)) =
     [''[SUCCESS] Brightened icon saved to: apps/web/public/notext-bright.png'',
      ''   - Brightness: 1.4x (subtle)'',
      ''   - Contrast: 1.3x'',
      ''   - Saturation: 1.5x'',
      ''   - Glow: 4px Gaussian blur (subtle)'']"
    by (simp_all add: w(2) output_file_def)
  obtain e where "brighten_icon example_lib input_file output_file empty_world = Inl (e, empty_world)"
    using brighten_icon_undecodable [OF undecodable_empty_world] by blast
  with main_exit_status [of example_lib empty_world]
  have "fst (main example_lib empty_world) = 1"
    by blast
  with ok preserves_size_example decodable_icon_world w(1) show ?thesis
    by simp
qed

section \<open>The enhancers at factors 1 and 0\<close>

text \<open>
  Claim C9. For the enhancers as the specification describes them, and any rounding that
  leaves integers alone: brightness, contrast and saturation at factor 1 each return
  their input image, and saturation at factor 0 returns the grayscale version of its
  input, every channel being the pixel's gray level.
\<close>

theorem enhancers_at_one_and_zero:
  assumes "exact_on_integers rnd"
  shows "spec_Brightness rnd 1 im = im \<and> spec_Contrast rnd luma 1 im = im \<and>
         spec_Color rnd luma 1 im = im \<and> spec_Color rnd luma 0 im = grayscale luma im"
  using assms
  by (simp add: spec_Brightness_one spec_Contrast_one spec_Color_one spec_Color_zero)

theorem enhancers_at_one_and_zero_witness:
  "exact_on_integers floor \<and>
   spec_Brightness floor 1 icon_rgb = icon_rgb \<and>
   spec_Contrast floor luma601 1 icon_rgb = icon_rgb \<and>
   spec_Color floor luma601 1 icon_rgb = icon_rgb \<and>
   spec_Color floor luma601 0 icon_rgb = grayscale luma601 icon_rgb \<and>
   px (spec_Color floor luma601 0 icon_rgb) 0 0 = (117, 117, 117)"
proof -
  have "px (grayscale luma601 icon_rgb) 0 0 = (117, 117, 117)"
    by (simp add: grayscale_def icon_rgb_def)
  then show ?thesis
    using enhancers_at_one_and_zero [OF exact_floor, of icon_rgb luma601] exact_floor
    by simp
qed

end
